theory Spec2Isabelle
  imports Main "HOL-Library.Word"
begin

section \<open>The C front-end of the RCM command line\<close>

text \<open>
  The program is one function, \<^verbatim>\<open>main\<close> of \<^verbatim>\<open>RCM-cli/Rcm-cli.c\<close>:
  \<^verbatim>\<open>
  int main(int argc, const char* argv[]) {
      if (argc <= 1) {
          const char* ver = rcm_version();
          fprintf(stdout, "RCM CLI (C front-end) - %s\n", ver ? ver : "unknown");
          const char* helpv[] = {"rcm", "--help"};
          return rcm_run(2, helpv);
      }
      return rcm_run(argc, argv);
  }
  \<close>
  The two functions it calls, \<^verbatim>\<open>rcm_run\<close> and \<^verbatim>\<open>rcm_version\<close>, are only declared
  (\<^verbatim>\<open>RCM-cli/Rcm-cli.h\<close>); they belong to a library linked in later. The model takes them
  as a parameter and records every call, with what it returned, in a trace.
\<close>

subsection \<open>C values\<close>

text \<open>
  \<^verbatim>\<open>int\<close> is a 32-bit word, compared as a signed number (\<open>sint\<close>). A \<^verbatim>\<open>const char*\<close>
  is the text it points to, or \<open>None\<close> for the null pointer. An argument vector is the
  sequence of its tokens.
\<close>

type_synonym c_int = "32 word"
type_synonym c_string = "string option"
type_synonym c_argv = "string list"

subsection \<open>The library boundary\<close>

text \<open>
  The declarations of the header: \<^verbatim>\<open>int rcm_run(int argc, const char* argv[])\<close> and
  \<^verbatim>\<open>const char* rcm_version(void)\<close>. The library may keep state of its own, of any
  type \<open>'s\<close>; each call reads it and returns it updated.
\<close>

record 's library =
  rcm_version :: "'s \<Rightarrow> c_string \<times> 's"
  rcm_run :: "c_int \<Rightarrow> c_argv \<Rightarrow> 's \<Rightarrow> c_int \<times> 's"

subsection \<open>The process: library state and trace\<close>

datatype event =
    Version_Call c_string
  | Stdout_Write string
  | Run_Call c_int c_argv c_int

text \<open>
  \<open>Version_Call v\<close>: \<^verbatim>\<open>rcm_version()\<close> was called and returned \<open>v\<close>.
  \<open>Stdout_Write t\<close>: \<^verbatim>\<open>fprintf(stdout, ...)\<close> wrote the text \<open>t\<close>.
  \<open>Run_Call c v r\<close>: \<^verbatim>\<open>rcm_run(c, v)\<close> was called and returned \<open>r\<close>.
\<close>

record 's process =
  lib_state :: 's
  trace :: "event list"

datatype error = Null_String_Argument

text \<open>
  \<open>Null_String_Argument\<close>: a null pointer given to the conversion \<^verbatim>\<open>%s\<close>, which C
  leaves undefined.
\<close>

definition call_rcm_version :: "'s library \<Rightarrow> 's process \<Rightarrow> c_string \<times> 's process" where
  "call_rcm_version L p =
     (case rcm_version L (lib_state p) of
        (v, s) \<Rightarrow> (v, \<lparr>lib_state = s, trace = trace p @ [Version_Call v]\<rparr>))"

definition call_rcm_run ::
  "'s library \<Rightarrow> c_int \<Rightarrow> c_argv \<Rightarrow> 's process \<Rightarrow> c_int \<times> 's process" where
  "call_rcm_run L c v p =
     (case rcm_run L c v (lib_state p) of
        (r, s) \<Rightarrow> (r, \<lparr>lib_state = s, trace = trace p @ [Run_Call c v r]\<rparr>))"

subsection \<open>Formatted output\<close>

text \<open>
  \<open>printf_s fmt a\<close> expands a format with one conversion, \<^verbatim>\<open>%s\<close>: the text before it,
  the argument, the text after it.
\<close>

fun printf_s :: "string \<Rightarrow> string \<Rightarrow> string" where
  "printf_s (c # d # fs) a =
     (if c = CHR ''%'' \<and> d = CHR ''s'' then a @ fs else c # printf_s (d # fs) a)"
| "printf_s fs a = fs"

definition fprintf_stdout :: "string \<Rightarrow> c_string \<Rightarrow> 's process \<Rightarrow> error + 's process" where
  "fprintf_stdout fmt arg p =
     (case arg of
        None \<Rightarrow> Inl Null_String_Argument
      | Some a \<Rightarrow> Inr (p\<lparr>trace := trace p @ [Stdout_Write (printf_s fmt a)]\<rparr>))"

subsection \<open>The entry point\<close>

definition main :: "'s library \<Rightarrow> c_int \<Rightarrow> c_argv \<Rightarrow> 's process \<Rightarrow> error + c_int \<times> 's process" where
  "main L argc argv p =
     (if sint argc \<le> 1 then
        (case call_rcm_version L p of
           (ver, p1) \<Rightarrow>
             (case fprintf_stdout ''RCM CLI (C front-end) - %s\<newline>''
                     (if ver \<noteq> None then ver else Some ''unknown'') p1 of
                Inl e \<Rightarrow> Inl e
              | Inr p2 \<Rightarrow>
                  (let helpv = [''rcm'', ''--help'']
                   in Inr (call_rcm_run L 2 helpv p2))))
      else Inr (call_rcm_run L argc argv p))"

subsection \<open>What a trace shows\<close>

text \<open>The calls of \<^verbatim>\<open>rcm_run\<close> in a trace, each with its count and its vector.\<close>

fun run_calls :: "event list \<Rightarrow> (c_int \<times> c_argv) list" where
  "run_calls [] = []"
| "run_calls (Run_Call c v r # es) = (c, v) # run_calls es"
| "run_calls (e # es) = run_calls es"

text \<open>The texts written to standard output, in order.\<close>

fun stdout_writes :: "event list \<Rightarrow> string list" where
  "stdout_writes [] = []"
| "stdout_writes (Stdout_Write t # es) = t # stdout_writes es"
| "stdout_writes (e # es) = stdout_writes es"

text \<open>The values the library returned, in order: a version text or a status.\<close>

fun lib_returns :: "event list \<Rightarrow> (c_string + c_int) list" where
  "lib_returns [] = []"
| "lib_returns (Version_Call v # es) = Inl v # lib_returns es"
| "lib_returns (Run_Call c a r # es) = Inr r # lib_returns es"
| "lib_returns (Stdout_Write t # es) = lib_returns es"

text \<open>The statuses \<^verbatim>\<open>rcm_run\<close> returned, in order.\<close>

fun run_returns :: "event list \<Rightarrow> c_int list" where
  "run_returns [] = []"
| "run_returns (Run_Call c a r # es) = r # run_returns es"
| "run_returns (e # es) = run_returns es"

text \<open>The events a run added to the trace it started with.\<close>

definition emitted :: "'s process \<Rightarrow> 's process \<Rightarrow> event list" where
  "emitted p q = drop (length (trace p)) (trace q)"

subsection \<open>Stand-ins for the library\<close>

text \<open>
  The library is not part of the program. To run the entry point on concrete inputs,
  two stand-ins with different state: \<open>counting_library\<close> counts the calls made to it,
  \<open>logging_library\<close> keeps the vectors \<^verbatim>\<open>rcm_run\<close> was given. Both return the version
  \<open>v\<close> and the status \<open>f c a\<close>.
\<close>

definition counting_library :: "c_string \<Rightarrow> (c_int \<Rightarrow> c_argv \<Rightarrow> c_int) \<Rightarrow> nat library" where
  "counting_library v f =
     \<lparr>rcm_version = (\<lambda>n. (v, Suc n)), rcm_run = (\<lambda>c a n. (f c a, Suc n))\<rparr>"

definition logging_library ::
  "c_string \<Rightarrow> (c_int \<Rightarrow> c_argv \<Rightarrow> c_int) \<Rightarrow> (c_argv list) library" where
  "logging_library v f =
     \<lparr>rcm_version = (\<lambda>h. (v, h)), rcm_run = (\<lambda>c a h. (f c a, a # h))\<rparr>"

text \<open>A status that tells the vectors apart: 0 for a help request, else the count.\<close>

definition help_or_count :: "c_int \<Rightarrow> c_argv \<Rightarrow> c_int" where
  "help_or_count c a = (if a = [''rcm'', ''--help''] then 0 else c)"

text \<open>
  \<open>count_runs L\<close> is the library \<open>L\<close> with a counter beside its state: \<^verbatim>\<open>rcm_version\<close>
  and \<^verbatim>\<open>rcm_run\<close> answer as those of \<open>L\<close> do, and every application of \<^verbatim>\<open>rcm_run\<close> adds
  one to the counter. The counter is the library's own: the entry point cannot set it.
\<close>

definition count_runs :: "'s library \<Rightarrow> ('s \<times> nat) library" where
  "count_runs L =
     \<lparr>rcm_version = (\<lambda>(s, n). case rcm_version L s of (v, s') \<Rightarrow> (v, (s', n))),
      rcm_run = (\<lambda>c a (s, n). case rcm_run L c a s of (r, s') \<Rightarrow> (r, (s', Suc n)))\<rparr>"

section \<open>The two branches\<close>

text \<open>The format of the banner, expanded: the label, the separator, the text, a line feed.\<close>

lemma printf_s_banner:
  "printf_s ''RCM CLI (C front-end) - %s\<newline>'' a = ''RCM CLI (C front-end) - '' @ a @ ''\<newline>''"
  by simp

lemma emitted_append [simp]:
  "emitted p \<lparr>lib_state = s, trace = trace p @ es\<rparr> = es"
  by (simp add: emitted_def)

text \<open>
  The normal branch, \<^verbatim>\<open>return rcm_run(argc, argv)\<close>: one call of the library, on the state
  the process started with.
\<close>

lemma main_normal:
  assumes "1 < sint argc" and "rcm_run L argc argv (lib_state p) = (r, s)"
  shows "main L argc argv p =
           Inr (r, \<lparr>lib_state = s, trace = trace p @ [Run_Call argc argv r]\<rparr>)"
  using assms by (simp add: main_def call_rcm_run_def)

text \<open>
  The bare branch: \<^verbatim>\<open>rcm_version()\<close>, then \<^verbatim>\<open>fprintf\<close>, then \<^verbatim>\<open>rcm_run(2, helpv)\<close> on the
  state the version call left. The argument of \<^verbatim>\<open>%s\<close> is never the null pointer, so the
  branch never ends in \<open>Inl\<close>.
\<close>

lemma main_bare:
  assumes "sint argc \<le> 1"
    and "rcm_version L (lib_state p) = (ver, s1)"
    and "rcm_run L 2 [''rcm'', ''--help''] s1 = (r, s2)"
  shows "main L argc argv p =
           Inr (r, \<lparr>lib_state = s2,
                    trace = trace p @
                      [Version_Call ver,
                       Stdout_Write (''RCM CLI (C front-end) - '' @
                         (case ver of None \<Rightarrow> ''unknown'' | Some t \<Rightarrow> t) @ ''\<newline>''),
                       Run_Call 2 [''rcm'', ''--help''] r]\<rparr>)"
proof (cases ver)
  case None
  with assms show ?thesis
    by (simp add: main_def call_rcm_version_def call_rcm_run_def fprintf_stdout_def)
next
  case (Some t)
  with assms show ?thesis
    by (simp add: main_def call_rcm_version_def call_rcm_run_def fprintf_stdout_def)
qed

text \<open>The same two facts, with the library's answers named.\<close>

lemma main_normal_ex:
  assumes "1 < sint argc"
  obtains r q where
    "rcm_run L argc argv (lib_state p) = (r, lib_state q)"
    "main L argc argv p = Inr (r, q)"
    "trace q = trace p @ [Run_Call argc argv r]"
    "emitted p q = [Run_Call argc argv r]"
proof -
  obtain r s where r: "rcm_run L argc argv (lib_state p) = (r, s)"
    by (cases "rcm_run L argc argv (lib_state p)")
  let ?q = "\<lparr>lib_state = s, trace = trace p @ [Run_Call argc argv r]\<rparr>"
  have "main L argc argv p = Inr (r, ?q)"
    using assms r by (rule main_normal)
  moreover have "rcm_run L argc argv (lib_state p) = (r, lib_state ?q)"
    using r by simp
  moreover have "trace ?q = trace p @ [Run_Call argc argv r]"
    by simp
  moreover have "emitted p ?q = [Run_Call argc argv r]"
    by simp
  ultimately show thesis
    using that by blast
qed

lemma main_bare_ex:
  assumes "sint argc \<le> 1"
  obtains ver s1 r q where
    "rcm_version L (lib_state p) = (ver, s1)"
    "rcm_run L 2 [''rcm'', ''--help''] s1 = (r, lib_state q)"
    "main L argc argv p = Inr (r, q)"
    "trace q = trace p @ emitted p q"
    "emitted p q =
       [Version_Call ver,
        Stdout_Write (''RCM CLI (C front-end) - '' @
          (case ver of None \<Rightarrow> ''unknown'' | Some t \<Rightarrow> t) @ ''\<newline>''),
        Run_Call 2 [''rcm'', ''--help''] r]"
proof -
  obtain ver s1 where v: "rcm_version L (lib_state p) = (ver, s1)"
    by (cases "rcm_version L (lib_state p)")
  obtain r s2 where r: "rcm_run L 2 [''rcm'', ''--help''] s1 = (r, s2)"
    by (cases "rcm_run L 2 [''rcm'', ''--help''] s1")
  let ?es = "[Version_Call ver,
        Stdout_Write (''RCM CLI (C front-end) - '' @
          (case ver of None \<Rightarrow> ''unknown'' | Some t \<Rightarrow> t) @ ''\<newline>''),
        Run_Call 2 [''rcm'', ''--help''] r]"
  let ?q = "\<lparr>lib_state = s2, trace = trace p @ ?es\<rparr>"
  have "main L argc argv p = Inr (r, ?q)"
    using assms v r by (rule main_bare)
  moreover have "rcm_run L 2 [''rcm'', ''--help''] s1 = (r, lib_state ?q)"
    using r by simp
  moreover have "emitted p ?q = ?es"
    by (rule emitted_append)
  moreover from this have "trace ?q = trace p @ emitted p ?q"
    by simp
  ultimately show thesis
    using v that by blast
qed

text \<open>The entry point only appends to the trace: what was there before stays.\<close>

lemma main_extends_trace:
  assumes "main L argc argv p = Inr (r, q)"
  shows "trace q = trace p @ emitted p q"
proof (cases "sint argc \<le> 1")
  case True
  then obtain r' q' where "main L argc argv p = Inr (r', q')" "trace q' = trace p @ emitted p q'"
    by (rule main_bare_ex)
  with assms show ?thesis
    by simp
next
  case False
  then have "1 < sint argc"
    by simp
  then obtain r' q' where "main L argc argv p = Inr (r', q')"
    "trace q' = trace p @ [Run_Call argc argv r']" "emitted p q' = [Run_Call argc argv r']"
    by (rule main_normal_ex)
  with assms show ?thesis
    by simp
qed

text \<open>What the counting library answers, from what \<open>L\<close> answers.\<close>

lemma count_runs_version:
  assumes "rcm_version L s = (v, s')"
  shows "rcm_version (count_runs L) (s, n) = (v, (s', n))"
  using assms by (simp add: count_runs_def)

lemma count_runs_run:
  assumes "rcm_run L c a s = (r, s')"
  shows "rcm_run (count_runs L) c a (s, n) = (r, (s', Suc n))"
  using assms by (simp add: count_runs_def)

section \<open>The forwarding contract\<close>

text \<open>
  C1. With more than one argument (\<open>1 < argc\<close>), \<^verbatim>\<open>rcm_run\<close> is called with the count
  and the vector the entry point was given, as they are: the one call of \<^verbatim>\<open>rcm_run\<close> in
  the trace has the same count and, token for token, the same vector; the library
  function is applied to them in the library state the process started with, and what
  it returns is the exit status and the final library state.
\<close>

theorem normal_forwards_verbatim:
  assumes "1 < sint argc"
  shows "\<exists>q. main L argc argv p = Inr (fst (rcm_run L argc argv (lib_state p)), q)
           \<and> lib_state q = snd (rcm_run L argc argv (lib_state p))
           \<and> run_calls (emitted p q) = [(argc, argv)]"
proof -
  obtain r q where
    "rcm_run L argc argv (lib_state p) = (r, lib_state q)"
    "main L argc argv p = Inr (r, q)"
    "emitted p q = [Run_Call argc argv r]"
    using assms by (rule main_normal_ex)
  then show ?thesis
    by simp
qed

theorem normal_forwards_verbatim_witness:
  "1 < sint (3 :: c_int)
   \<and> main (counting_library None help_or_count) 3 [''rcm'', ''add'', ''x'']
        \<lparr>lib_state = 0, trace = []\<rparr>
       = Inr (3, \<lparr>lib_state = 1, trace = [Run_Call 3 [''rcm'', ''add'', ''x''] 3]\<rparr>)
   \<and> run_calls
        (emitted \<lparr>lib_state = 0 :: nat, trace = []\<rparr>
           \<lparr>lib_state = 1, trace = [Run_Call 3 [''rcm'', ''add'', ''x''] 3]\<rparr>)
       = [(3, [''rcm'', ''add'', ''x''])]"
  using normal_forwards_verbatim
    [of 3 "counting_library None help_or_count" "[''rcm'', ''add'', ''x'']"
        "\<lparr>lib_state = 0, trace = []\<rparr>"]
  by (simp add: main_def call_rcm_run_def counting_library_def help_or_count_def emitted_def)

text \<open>
  C2. With at most one argument (\<open>argc \<le> 1\<close>, so also \<open>argc = 0\<close>), whatever the vector
  holds, \<^verbatim>\<open>rcm_run\<close> is called with the count 2 and a vector of two tokens, the program
  name \<^verbatim>\<open>rcm\<close> and the flag \<^verbatim>\<open>--help\<close>; the library function is applied to them in the
  state the version call left.
\<close>

theorem bare_forwards_help:
  assumes "sint argc \<le> 1"
  shows "\<exists>r q. main L argc argv p = Inr (r, q)
           \<and> run_calls (emitted p q) = [(2, [''rcm'', ''--help''])]
           \<and> (r, lib_state q) =
               rcm_run L 2 [''rcm'', ''--help''] (snd (rcm_version L (lib_state p)))"
proof -
  obtain ver s1 r q where
    "rcm_version L (lib_state p) = (ver, s1)"
    "rcm_run L 2 [''rcm'', ''--help''] s1 = (r, lib_state q)"
    "main L argc argv p = Inr (r, q)"
    "emitted p q =
       [Version_Call ver,
        Stdout_Write (''RCM CLI (C front-end) - '' @
          (case ver of None \<Rightarrow> ''unknown'' | Some t \<Rightarrow> t) @ ''\<newline>''),
        Run_Call 2 [''rcm'', ''--help''] r]"
    using assms by (rule main_bare_ex)
  then show ?thesis
    by simp
qed

theorem bare_forwards_help_witness:
  "sint (0 :: c_int) \<le> 1
   \<and> main (counting_library (Some ''1.2.0'') help_or_count) 0 [] \<lparr>lib_state = 0, trace = []\<rparr>
       = Inr (0, \<lparr>lib_state = Suc (Suc 0),
                  trace = [Version_Call (Some ''1.2.0''),
                           Stdout_Write ''RCM CLI (C front-end) - 1.2.0\<newline>'',
                           Run_Call 2 [''rcm'', ''--help''] 0]\<rparr>)
   \<and> run_calls
        (emitted \<lparr>lib_state = 0 :: nat, trace = []\<rparr>
           \<lparr>lib_state = Suc (Suc 0),
              trace = [Version_Call (Some ''1.2.0''),
                       Stdout_Write ''RCM CLI (C front-end) - 1.2.0\<newline>'',
                       Run_Call 2 [''rcm'', ''--help''] 0]\<rparr>)
       = [(2, [''rcm'', ''--help''])]"
  using bare_forwards_help
    [of 0 "counting_library (Some ''1.2.0'') help_or_count" "[]" "\<lparr>lib_state = 0, trace = []\<rparr>"]
  by (simp add: Let_def main_def call_rcm_version_def call_rcm_run_def fprintf_stdout_def
      counting_library_def help_or_count_def emitted_def)

text \<open>
  C3. In both branches the value \<^verbatim>\<open>main\<close> returns is the value its call of \<^verbatim>\<open>rcm_run\<close>
  returned, the same 32-bit word: the entry point ends in \<open>Inr (r, q)\<close> where \<open>r\<close> is the
  status of the one \<^verbatim>\<open>rcm_run\<close> call of the trace, and \<open>(r, lib_state q)\<close> is what the
  library function returned for the count, vector and state of that call.
\<close>

theorem status_pass_through:
  "\<exists>r q c v s. main L argc argv p = Inr (r, q)
       \<and> rcm_run L c v s = (r, lib_state q)
       \<and> run_returns (emitted p q) = [r]"
proof (cases "sint argc \<le> 1")
  case True
  then obtain ver s1 r q where
    "rcm_run L 2 [''rcm'', ''--help''] s1 = (r, lib_state q)"
    "main L argc argv p = Inr (r, q)"
    "emitted p q =
       [Version_Call ver,
        Stdout_Write (''RCM CLI (C front-end) - '' @
          (case ver of None \<Rightarrow> ''unknown'' | Some t \<Rightarrow> t) @ ''\<newline>''),
        Run_Call 2 [''rcm'', ''--help''] r]"
    by (rule main_bare_ex)
  then have "main L argc argv p = Inr (r, q)
      \<and> rcm_run L 2 [''rcm'', ''--help''] s1 = (r, lib_state q)
      \<and> run_returns (emitted p q) = [r]"
    by simp
  then show ?thesis
    by blast
next
  case False
  then have "1 < sint argc"
    by simp
  then obtain r q where
    "rcm_run L argc argv (lib_state p) = (r, lib_state q)"
    "main L argc argv p = Inr (r, q)"
    "emitted p q = [Run_Call argc argv r]"
    by (rule main_normal_ex)
  then have "main L argc argv p = Inr (r, q)
      \<and> rcm_run L argc argv (lib_state p) = (r, lib_state q)
      \<and> run_returns (emitted p q) = [r]"
    by simp
  then show ?thesis
    by blast
qed

text \<open>
  C4. With at most one argument, the entry point writes to standard output once: the
  label, the separator, the version text and a line feed, where the version text is
  \<^verbatim>\<open>unknown\<close> when \<^verbatim>\<open>rcm_version\<close> returned the null pointer. The run ends in \<open>Inr\<close>: the
  null pointer never reaches \<^verbatim>\<open>%s\<close>.
\<close>

theorem bare_prints_banner:
  assumes "sint argc \<le> 1"
  shows "\<exists>r q. main L argc argv p = Inr (r, q)
           \<and> stdout_writes (emitted p q) =
               [''RCM CLI (C front-end) - '' @
                (case fst (rcm_version L (lib_state p)) of None \<Rightarrow> ''unknown'' | Some t \<Rightarrow> t) @
                ''\<newline>'']"
proof -
  obtain ver s1 r q where
    "rcm_version L (lib_state p) = (ver, s1)"
    "main L argc argv p = Inr (r, q)"
    "emitted p q =
       [Version_Call ver,
        Stdout_Write (''RCM CLI (C front-end) - '' @
          (case ver of None \<Rightarrow> ''unknown'' | Some t \<Rightarrow> t) @ ''\<newline>''),
        Run_Call 2 [''rcm'', ''--help''] r]"
    using assms by (rule main_bare_ex)
  then show ?thesis
    by simp
qed

theorem bare_prints_banner_witness:
  "sint (1 :: c_int) \<le> 1
   \<and> rcm_version (counting_library None help_or_count) 0 = (None, Suc 0)
   \<and> main (counting_library None help_or_count) 1 [''rcm-cli''] \<lparr>lib_state = 0, trace = []\<rparr>
       = Inr (0, \<lparr>lib_state = Suc (Suc 0),
                  trace = [Version_Call None,
                           Stdout_Write ''RCM CLI (C front-end) - unknown\<newline>'',
                           Run_Call 2 [''rcm'', ''--help''] 0]\<rparr>)
   \<and> stdout_writes
        (emitted \<lparr>lib_state = 0 :: nat, trace = []\<rparr>
           \<lparr>lib_state = Suc (Suc 0),
              trace = [Version_Call None,
                       Stdout_Write ''RCM CLI (C front-end) - unknown\<newline>'',
                       Run_Call 2 [''rcm'', ''--help''] 0]\<rparr>)
       = [''RCM CLI (C front-end) - unknown\<newline>'']"
  using bare_prints_banner
    [of 1 "counting_library None help_or_count" "[''rcm-cli'']" "\<lparr>lib_state = 0, trace = []\<rparr>"]
  by (simp add: Let_def main_def call_rcm_version_def call_rcm_run_def fprintf_stdout_def
      counting_library_def help_or_count_def emitted_def)

text \<open>
  C5. Whatever the count and the vector, the entry point applies \<^verbatim>\<open>rcm_run\<close> once, not
  zero times and not twice. Three facts say so. The status and the final library state
  are those of one application of the library's \<^verbatim>\<open>rcm_run\<close>: to the two tokens, in the
  state the version call left, when \<open>argc \<le> 1\<close>, and to \<open>argc\<close> and \<open>argv\<close>, in the state
  the process started with, otherwise. The events added to the trace hold one call of
  \<^verbatim>\<open>rcm_run\<close>. And run against the same library with a counter of the applications of
  \<^verbatim>\<open>rcm_run\<close>, the entry point returns the same status, leaves the same library state
  and the same trace, and the counter goes from \<open>n\<close> to \<open>Suc n\<close>.
\<close>

theorem run_called_exactly_once:
  "\<exists>r q. main L argc argv p = Inr (r, q)
     \<and> (r, lib_state q) =
         (if sint argc \<le> 1
          then rcm_run L 2 [''rcm'', ''--help''] (snd (rcm_version L (lib_state p)))
          else rcm_run L argc argv (lib_state p))
     \<and> length (run_calls (emitted p q)) = 1
     \<and> main (count_runs L) argc argv \<lparr>lib_state = (lib_state p, n), trace = trace p\<rparr>
         = Inr (r, \<lparr>lib_state = (lib_state q, Suc n), trace = trace q\<rparr>)"
proof (cases "sint argc \<le> 1")
  case True
  obtain ver s1 where v: "rcm_version L (lib_state p) = (ver, s1)"
    by (cases "rcm_version L (lib_state p)")
  obtain r s2 where r: "rcm_run L 2 [''rcm'', ''--help''] s1 = (r, s2)"
    by (cases "rcm_run L 2 [''rcm'', ''--help''] s1")
  let ?es = "[Version_Call ver,
      Stdout_Write (''RCM CLI (C front-end) - '' @
        (case ver of None \<Rightarrow> ''unknown'' | Some t \<Rightarrow> t) @ ''\<newline>''),
      Run_Call 2 [''rcm'', ''--help''] r]"
  let ?q = "\<lparr>lib_state = s2, trace = trace p @ ?es\<rparr>"
  let ?pc = "\<lparr>lib_state = (lib_state p, n), trace = trace p\<rparr>"
  have plain: "main L argc argv p = Inr (r, ?q)"
    using True v r by (rule main_bare)
  have "rcm_version (count_runs L) (lib_state ?pc) = (ver, (s1, n))"
    using v by (simp add: count_runs_version)
  moreover have "rcm_run (count_runs L) 2 [''rcm'', ''--help''] (s1, n) = (r, (s2, Suc n))"
    using r by (rule count_runs_run)
  ultimately have "main (count_runs L) argc argv ?pc =
      Inr (r, \<lparr>lib_state = (s2, Suc n), trace = trace ?pc @ ?es\<rparr>)"
    by (rule main_bare [OF True])
  then have counted: "main (count_runs L) argc argv ?pc =
      Inr (r, \<lparr>lib_state = (lib_state ?q, Suc n), trace = trace ?q\<rparr>)"
    by simp
  have once: "length (run_calls (emitted p ?q)) = 1"
    by simp
  have applied: "(r, lib_state ?q) =
      (if sint argc \<le> 1
       then rcm_run L 2 [''rcm'', ''--help''] (snd (rcm_version L (lib_state p)))
       else rcm_run L argc argv (lib_state p))"
    using True v r by simp
  from plain applied once counted show ?thesis
    by blast
next
  case False
  then have n: "1 < sint argc"
    by simp
  obtain r s where r: "rcm_run L argc argv (lib_state p) = (r, s)"
    by (cases "rcm_run L argc argv (lib_state p)")
  let ?q = "\<lparr>lib_state = s, trace = trace p @ [Run_Call argc argv r]\<rparr>"
  let ?pc = "\<lparr>lib_state = (lib_state p, n), trace = trace p\<rparr>"
  have plain: "main L argc argv p = Inr (r, ?q)"
    using n r by (rule main_normal)
  have "rcm_run (count_runs L) argc argv (lib_state ?pc) = (r, (s, Suc n))"
    using r by (simp add: count_runs_run)
  with n have "main (count_runs L) argc argv ?pc =
      Inr (r, \<lparr>lib_state = (s, Suc n), trace = trace ?pc @ [Run_Call argc argv r]\<rparr>)"
    by (rule main_normal)
  then have counted: "main (count_runs L) argc argv ?pc =
      Inr (r, \<lparr>lib_state = (lib_state ?q, Suc n), trace = trace ?q\<rparr>)"
    by simp
  have once: "length (run_calls (emitted p ?q)) = 1"
    by simp
  have applied: "(r, lib_state ?q) =
      (if sint argc \<le> 1
       then rcm_run L 2 [''rcm'', ''--help''] (snd (rcm_version L (lib_state p)))
       else rcm_run L argc argv (lib_state p))"
    using False r by simp
  from plain applied once counted show ?thesis
    by blast
qed

text \<open>
  C6. With more than one argument, the only thing the entry point does is the call of
  \<^verbatim>\<open>rcm_run\<close>: it adds that one event to the trace, so it writes nothing to standard
  output and does not ask for the version.
\<close>

theorem normal_writes_nothing:
  assumes "1 < sint argc"
  shows "\<exists>r q. main L argc argv p = Inr (r, q)
           \<and> trace q = trace p @ [Run_Call argc argv r]
           \<and> stdout_writes (emitted p q) = []"
proof -
  obtain r q where
    "main L argc argv p = Inr (r, q)"
    "trace q = trace p @ [Run_Call argc argv r]"
    "emitted p q = [Run_Call argc argv r]"
    using assms by (rule main_normal_ex)
  then have "main L argc argv p = Inr (r, q)
      \<and> trace q = trace p @ [Run_Call argc argv r]
      \<and> stdout_writes (emitted p q) = []"
    by simp
  then show ?thesis
    by blast
qed

theorem normal_writes_nothing_witness:
  "1 < sint (2 :: c_int)
   \<and> main (logging_library (Some ''1.2.0'') help_or_count) 2 [''rcm'', ''status'']
        \<lparr>lib_state = [], trace = []\<rparr>
       = Inr (2, \<lparr>lib_state = [[''rcm'', ''status'']],
                  trace = [] @ [Run_Call 2 [''rcm'', ''status''] 2]\<rparr>)
   \<and> stdout_writes
        (emitted \<lparr>lib_state = [] :: c_argv list, trace = []\<rparr>
           \<lparr>lib_state = [[''rcm'', ''status'']],
              trace = [Run_Call 2 [''rcm'', ''status''] 2]\<rparr>)
       = []"
  using normal_writes_nothing
    [of 2 "logging_library (Some ''1.2.0'') help_or_count" "[''rcm'', ''status'']"
        "\<lparr>lib_state = [], trace = []\<rparr>"]
  by (simp add: main_def call_rcm_run_def logging_library_def help_or_count_def emitted_def)

text \<open>
  C7. With at most one argument, the entry point does three things, in this order:
  it calls \<^verbatim>\<open>rcm_version\<close> (in the library state the process started with), it writes
  the banner, it calls \<^verbatim>\<open>rcm_run\<close> with the two tokens (in the state the version call
  left). Nothing follows the call of \<^verbatim>\<open>rcm_run\<close>: its status is the exit status, its
  state the final library state, its event the last of the trace.
\<close>

theorem bare_order_of_steps:
  assumes "sint argc \<le> 1"
  shows "\<exists>ver s1 t r q.
           rcm_version L (lib_state p) = (ver, s1)
           \<and> rcm_run L 2 [''rcm'', ''--help''] s1 = (r, lib_state q)
           \<and> main L argc argv p = Inr (r, q)
           \<and> trace q = trace p @
                [Version_Call ver, Stdout_Write t, Run_Call 2 [''rcm'', ''--help''] r]"
proof -
  obtain ver s1 r q where
    "rcm_version L (lib_state p) = (ver, s1)"
    "rcm_run L 2 [''rcm'', ''--help''] s1 = (r, lib_state q)"
    "main L argc argv p = Inr (r, q)"
    "trace q = trace p @ emitted p q"
    "emitted p q =
       [Version_Call ver,
        Stdout_Write (''RCM CLI (C front-end) - '' @
          (case ver of None \<Rightarrow> ''unknown'' | Some t \<Rightarrow> t) @ ''\<newline>''),
        Run_Call 2 [''rcm'', ''--help''] r]"
    using assms by (rule main_bare_ex)
  then show ?thesis
    by simp
qed

theorem bare_order_of_steps_witness:
  "sint (1 :: c_int) \<le> 1
   \<and> rcm_version (counting_library (Some ''0.9'') help_or_count) 5 = (Some ''0.9'', 6)
   \<and> rcm_run (counting_library (Some ''0.9'') help_or_count) 2 [''rcm'', ''--help''] 6 = (0, 7)
   \<and> main (counting_library (Some ''0.9'') help_or_count) 1 [''rcm'']
        \<lparr>lib_state = 5, trace = [Stdout_Write ''earlier'']\<rparr>
       = Inr (0, \<lparr>lib_state = 7,
                  trace = [Stdout_Write ''earlier'',
                           Version_Call (Some ''0.9''),
                           Stdout_Write ''RCM CLI (C front-end) - 0.9\<newline>'',
                           Run_Call 2 [''rcm'', ''--help''] 0]\<rparr>)"
  using bare_order_of_steps
    [of 1 "counting_library (Some ''0.9'') help_or_count"
        "\<lparr>lib_state = 5, trace = [Stdout_Write ''earlier'']\<rparr>" "[''rcm'']"]
  by (simp add: Let_def main_def call_rcm_version_def call_rcm_run_def fprintf_stdout_def
      counting_library_def help_or_count_def)

text \<open>
  C8. With at most one argument the result does not depend on the vector: any two
  vectors give the same status, the same library state and the same trace, and the run
  ends in \<open>Inr\<close>. So the count 0 with the empty vector takes the bare branch and
  completes.
\<close>

theorem bare_ignores_argv:
  assumes "sint argc \<le> 1"
  shows "main L argc argv p = main L argc argv' p \<and> (\<exists>r q. main L argc argv p = Inr (r, q))"
proof -
  obtain ver s1 where v: "rcm_version L (lib_state p) = (ver, s1)"
    by (cases "rcm_version L (lib_state p)")
  obtain r s2 where r: "rcm_run L 2 [''rcm'', ''--help''] s1 = (r, s2)"
    by (cases "rcm_run L 2 [''rcm'', ''--help''] s1")
  have "main L argc argv p = main L argc argv' p"
    by (simp only: main_bare [OF assms v r])
  moreover have "\<exists>r q. main L argc argv p = Inr (r, q)"
    by (simp only: main_bare [OF assms v r]) blast
  ultimately show ?thesis
    by (rule conjI)
qed

theorem bare_ignores_argv_witness:
  "sint (0 :: c_int) \<le> 1
   \<and> main (logging_library None help_or_count) 0 [] \<lparr>lib_state = [], trace = []\<rparr>
       = main (logging_library None help_or_count) 0 [''x'', ''y''] \<lparr>lib_state = [], trace = []\<rparr>
   \<and> main (logging_library None help_or_count) 0 [] \<lparr>lib_state = [], trace = []\<rparr>
       = Inr (0, \<lparr>lib_state = [[''rcm'', ''--help'']],
                  trace = [Version_Call None,
                           Stdout_Write ''RCM CLI (C front-end) - unknown\<newline>'',
                           Run_Call 2 [''rcm'', ''--help''] 0]\<rparr>)"
  using bare_ignores_argv
    [of 0 "logging_library None help_or_count" "[]" "\<lparr>lib_state = [], trace = []\<rparr>" "[''x'', ''y'']"]
  by (simp add: Let_def main_def call_rcm_version_def call_rcm_run_def fprintf_stdout_def
      logging_library_def help_or_count_def)

text \<open>
  C9. The constant tokens. In the bare branch the first token of the vector given to
  \<^verbatim>\<open>rcm_run\<close> is \<^verbatim>\<open>rcm\<close>, and the line written is the label \<^verbatim>\<open>RCM CLI (C front-end)\<close>, the
  separator \<^verbatim>\<open> - \<close> (space, hyphen, space), the version text, and a line feed.
\<close>

theorem constant_tokens:
  assumes "sint argc \<le> 1"
  shows "\<exists>r q flag text. main L argc argv p = Inr (r, q)
           \<and> run_calls (emitted p q) = [(2, [''rcm'', flag])]
           \<and> stdout_writes (emitted p q) =
               [''RCM CLI (C front-end)'' @ '' - '' @ text @ ''\<newline>'']
           \<and> text = (case fst (rcm_version L (lib_state p)) of
                       None \<Rightarrow> ''unknown'' | Some t \<Rightarrow> t)"
proof -
  obtain ver s1 r q where
    "rcm_version L (lib_state p) = (ver, s1)"
    "main L argc argv p = Inr (r, q)"
    "emitted p q =
       [Version_Call ver,
        Stdout_Write (''RCM CLI (C front-end) - '' @
          (case ver of None \<Rightarrow> ''unknown'' | Some t \<Rightarrow> t) @ ''\<newline>''),
        Run_Call 2 [''rcm'', ''--help''] r]"
    using assms by (rule main_bare_ex)
  then show ?thesis
    by simp
qed

theorem constant_tokens_witness:
  "sint (-1 :: c_int) \<le> 1
   \<and> main (logging_library (Some ''2.0-rc1'') help_or_count) (-1) [] \<lparr>lib_state = [], trace = []\<rparr>
       = Inr (0, \<lparr>lib_state = [[''rcm'', ''--help'']],
                  trace = [Version_Call (Some ''2.0-rc1''),
                           Stdout_Write (''RCM CLI (C front-end)'' @ '' - '' @ ''2.0-rc1'' @ ''\<newline>''),
                           Run_Call 2 [''rcm'', ''--help''] 0]\<rparr>)"
  using constant_tokens
    [of "-1" "logging_library (Some ''2.0-rc1'') help_or_count" "[]" "\<lparr>lib_state = [], trace = []\<rparr>"]
  by (simp add: Let_def main_def call_rcm_version_def call_rcm_run_def fprintf_stdout_def
      logging_library_def help_or_count_def)

text \<open>
  C10. Two runs with the same count and the same vector, in which the library returned
  the same values (the version text, where asked for, and the status), write the same
  text to standard output and return the same status. The two libraries, their
  states and the traces the runs start with may differ.
\<close>

theorem main_deterministic:
  assumes "main L1 argc argv p1 = Inr (r1, q1)"
    and "main L2 argc argv p2 = Inr (r2, q2)"
    and "lib_returns (emitted p1 q1) = lib_returns (emitted p2 q2)"
  shows "r1 = r2 \<and> stdout_writes (emitted p1 q1) = stdout_writes (emitted p2 q2)"
proof (cases "sint argc \<le> 1")
  case True
  from True obtain ver r q where
    "main L1 argc argv p1 = Inr (r, q)"
    "emitted p1 q =
       [Version_Call ver,
        Stdout_Write (''RCM CLI (C front-end) - '' @
          (case ver of None \<Rightarrow> ''unknown'' | Some t \<Rightarrow> t) @ ''\<newline>''),
        Run_Call 2 [''rcm'', ''--help''] r]"
    by (rule main_bare_ex [where L = L1 and p = p1 and argv = argv])
  with assms(1) have e1: "emitted p1 q1 =
      [Version_Call ver,
       Stdout_Write (''RCM CLI (C front-end) - '' @
         (case ver of None \<Rightarrow> ''unknown'' | Some t \<Rightarrow> t) @ ''\<newline>''),
       Run_Call 2 [''rcm'', ''--help''] r1]"
    by simp
  from True obtain ver' r' q' where
    "main L2 argc argv p2 = Inr (r', q')"
    "emitted p2 q' =
       [Version_Call ver',
        Stdout_Write (''RCM CLI (C front-end) - '' @
          (case ver' of None \<Rightarrow> ''unknown'' | Some t \<Rightarrow> t) @ ''\<newline>''),
        Run_Call 2 [''rcm'', ''--help''] r']"
    by (rule main_bare_ex [where L = L2 and p = p2 and argv = argv])
  with assms(2) have e2: "emitted p2 q2 =
      [Version_Call ver',
       Stdout_Write (''RCM CLI (C front-end) - '' @
         (case ver' of None \<Rightarrow> ''unknown'' | Some t \<Rightarrow> t) @ ''\<newline>''),
       Run_Call 2 [''rcm'', ''--help''] r2]"
    by simp
  from assms(3) show ?thesis
    unfolding e1 e2 by simp
next
  case False
  then have n: "1 < sint argc"
    by simp
  from n obtain r q where
    "main L1 argc argv p1 = Inr (r, q)" "emitted p1 q = [Run_Call argc argv r]"
    by (rule main_normal_ex [where L = L1 and p = p1 and argv = argv])
  with assms(1) have e1: "emitted p1 q1 = [Run_Call argc argv r1]"
    by simp
  from n obtain r' q' where
    "main L2 argc argv p2 = Inr (r', q')" "emitted p2 q' = [Run_Call argc argv r']"
    by (rule main_normal_ex [where L = L2 and p = p2 and argv = argv])
  with assms(2) have e2: "emitted p2 q2 = [Run_Call argc argv r2]"
    by simp
  from assms(3) show ?thesis
    unfolding e1 e2 by simp
qed

theorem main_deterministic_witness:
  "main (counting_library (Some ''1.2.0'') help_or_count) 1 [''rcm'']
      \<lparr>lib_state = 7, trace = []\<rparr>
     = Inr (0, \<lparr>lib_state = 9,
                trace = [Version_Call (Some ''1.2.0''),
                         Stdout_Write ''RCM CLI (C front-end) - 1.2.0\<newline>'',
                         Run_Call 2 [''rcm'', ''--help''] 0]\<rparr>)
   \<and> main (logging_library (Some ''1.2.0'') (\<lambda>c a. 0)) 1 [''rcm'']
      \<lparr>lib_state = [], trace = [Stdout_Write ''earlier'']\<rparr>
     = Inr (0, \<lparr>lib_state = [[''rcm'', ''--help'']],
                trace = [Stdout_Write ''earlier'',
                         Version_Call (Some ''1.2.0''),
                         Stdout_Write ''RCM CLI (C front-end) - 1.2.0\<newline>'',
                         Run_Call 2 [''rcm'', ''--help''] 0]\<rparr>)
   \<and> lib_returns
        (emitted \<lparr>lib_state = 7 :: nat, trace = []\<rparr>
           \<lparr>lib_state = 9,
              trace = [Version_Call (Some ''1.2.0''),
                       Stdout_Write ''RCM CLI (C front-end) - 1.2.0\<newline>'',
                       Run_Call 2 [''rcm'', ''--help''] 0]\<rparr>)
       = lib_returns
          (emitted \<lparr>lib_state = [] :: c_argv list, trace = [Stdout_Write ''earlier'']\<rparr>
             \<lparr>lib_state = [[''rcm'', ''--help'']],
                trace = [Stdout_Write ''earlier'',
                         Version_Call (Some ''1.2.0''),
                         Stdout_Write ''RCM CLI (C front-end) - 1.2.0\<newline>'',
                         Run_Call 2 [''rcm'', ''--help''] 0]\<rparr>)
   \<and> stdout_writes
        (emitted \<lparr>lib_state = 7 :: nat, trace = []\<rparr>
           \<lparr>lib_state = 9,
              trace = [Version_Call (Some ''1.2.0''),
                       Stdout_Write ''RCM CLI (C front-end) - 1.2.0\<newline>'',
                       Run_Call 2 [''rcm'', ''--help''] 0]\<rparr>)
       = stdout_writes
          (emitted \<lparr>lib_state = [] :: c_argv list, trace = [Stdout_Write ''earlier'']\<rparr>
             \<lparr>lib_state = [[''rcm'', ''--help'']],
                trace = [Stdout_Write ''earlier'',
                         Version_Call (Some ''1.2.0''),
                         Stdout_Write ''RCM CLI (C front-end) - 1.2.0\<newline>'',
                         Run_Call 2 [''rcm'', ''--help''] 0]\<rparr>)"
  using main_deterministic
    [of "counting_library (Some ''1.2.0'') help_or_count" 1 "[''rcm'']"
        "\<lparr>lib_state = 7, trace = []\<rparr>" 0
        "\<lparr>lib_state = 9,
           trace = [Version_Call (Some ''1.2.0''),
                    Stdout_Write ''RCM CLI (C front-end) - 1.2.0\<newline>'',
                    Run_Call 2 [''rcm'', ''--help''] 0]\<rparr>"
        "logging_library (Some ''1.2.0'') (\<lambda>c a. 0)"
        "\<lparr>lib_state = [], trace = [Stdout_Write ''earlier'']\<rparr>" 0
        "\<lparr>lib_state = [[''rcm'', ''--help'']],
           trace = [Stdout_Write ''earlier'',
                    Version_Call (Some ''1.2.0''),
                    Stdout_Write ''RCM CLI (C front-end) - 1.2.0\<newline>'',
                    Run_Call 2 [''rcm'', ''--help''] 0]\<rparr>"]
  by (simp add: Let_def main_def call_rcm_version_def call_rcm_run_def fprintf_stdout_def
      counting_library_def logging_library_def help_or_count_def emitted_def)

end
